theory Spec2Isabelle
  imports Complex_Main "HOL-Library.Char_ord" "HOL-Library.List_Lexorder"
begin

section \<open>Values, errors and tables\<close>

text \<open>
  The food-chain indices of \<^verbatim>\<open>biotools/foodchain.py\<close> are pandas computations over
  three tables: the survey points joined to their biotope (the result of the spatial
  join), the food-chain information table read from a CSV file, and the biotope table.
  A table is a list of rows, a row a record with one field per column the code reads or
  writes. Two columns have Korean names in the source; they appear here under their
  transliteration: \<open>gukmyeong\<close> is the species-name column and \<open>gaechesu\<close> the
  individual-count column. A nullable column has an \<open>option\<close> type: \<open>None\<close> is pandas'
  NaN/None.

  Numbers are real numbers: the model idealises float64 and int64 by exact arithmetic.
\<close>

datatype error = ValueError | ZeroDivisionError | IndexError

text \<open>A raw field of the survey table: missing, a string, or already a number.\<close>

datatype cell = Null | Str string | Num real

text \<open>
  A numpy scalar: division of numpy scalars does not raise on a zero divisor, it
  yields \<open>nan\<close> or an infinity. In a pandas column \<open>NaN\<close> is the null value.
\<close>

datatype npfloat = Fin real | PInf | NInf | NaN

text \<open>A survey point after \<^verbatim>\<open>aa.SpatialJoin\<close>: a point outside every biotope has no \<open>BT_ID\<close>.\<close>

record 'z joined_row =
  joined_BT_ID :: "'z option"
  joined_gukmyeong :: "string option"
  joined_gaechesu :: cell

text \<open>A row of the food-chain information table (\<^verbatim>\<open>foodchain_info_df\<close>).\<close>

record foodchain_info =
  S_Name :: "string option"
  info_Owls_foods :: "string option"
  info_D_Level :: "string option"
  info_Alternative_S :: "string option"

text \<open>
  A row of \<^verbatim>\<open>_Surveypoint.df\<close> after the merge with the information table. The type
  of the count column is a parameter: a raw \<open>cell\<close> before the coercion, a number after it.
  \<open>Alternative_S\<close> is the column of the information table that
  \<^verbatim>\<open>SimilarFunctionalSpecies.run\<close> reads; \<open>Alternative_s\<close> (lower-case s) is the column
  that the replacement dictionary of \<^verbatim>\<open>enrich\<close> names. No input table has a column
  \<open>Alternative_s\<close>, so it is null in every row that \<^verbatim>\<open>enrich\<close> did not write.
\<close>

record ('z, 'c) surveypoint_row =
  BT_ID :: "'z option"
  gukmyeong :: "string option"
  gaechesu :: 'c
  Owls_foods :: "string option"
  D_Level :: "string option"
  Alternative_S :: "string option"
  Alternative_s :: "string option"

section \<open>Enrichment: \<^verbatim>\<open>_Surveypoint.enrich\<close>\<close>

text \<open>
  \<^verbatim>\<open>pd.merge(df, info, how="left", left_on=gukmyeong, right_on="S_Name")\<close>: every left
  row is kept, once per information row with the same key (pandas matches a null key with
  a null key), and once with null information columns when there is none.
\<close>

definition with_info ::
  "'z joined_row \<Rightarrow> foodchain_info option \<Rightarrow> ('z, cell) surveypoint_row" where
  "with_info x t =
     \<lparr>BT_ID = joined_BT_ID x, gukmyeong = joined_gukmyeong x, gaechesu = joined_gaechesu x,
      Owls_foods = Option.bind t info_Owls_foods, D_Level = Option.bind t info_D_Level,
      Alternative_S = Option.bind t info_Alternative_S, Alternative_s = None\<rparr>"

definition merge_info ::
  "'z joined_row list \<Rightarrow> foodchain_info list \<Rightarrow> ('z, cell) surveypoint_row list" where
  "merge_info df info_df =
     concat (map (\<lambda>x.
       case filter (\<lambda>t. S_Name t = joined_gukmyeong x) info_df of
         [] \<Rightarrow> [with_info x None]
       | ts \<Rightarrow> map (\<lambda>t. with_info x (Some t)) ts) df)"

text \<open>
  Modelled from the spec: \<^verbatim>\<open>pdplus.drop_if(df, condition)\<close>, whose file is not among
  the sources. The spec: the drop policy drops the observations whose species name is the
  blank placeholder. So the rows on which the condition holds are dropped and the others
  are kept, in order.
\<close>

definition drop_if :: "'r list \<Rightarrow> ('r \<Rightarrow> bool) \<Rightarrow> 'r list" where
  "drop_if df condition = filter (\<lambda>x. \<not> condition x) df"

text \<open>
  Modelled from the spec: \<^verbatim>\<open>pdplus.replace_row(df, new_values, condition)\<close>, whose file
  is not among the sources. The spec: the retain policy keeps the placeholder observations
  and overwrites their fields with fixed values. So every row on which the condition holds
  gets the values of the dictionary, column by column, and no other row changes. The
  dictionary is the function that writes its values into a row; a key that names no column
  of the table writes a column of that name (as \<^verbatim>\<open>df.loc[mask, key] = value\<close> does).
\<close>

definition replace_row :: "'r list \<Rightarrow> ('r \<Rightarrow> 'r) \<Rightarrow> ('r \<Rightarrow> bool) \<Rightarrow> 'r list" where
  "replace_row df new_values condition = map (\<lambda>x. if condition x then new_values x else x) df"

text \<open>The condition of both policies: \<^verbatim>\<open>lambda x: x[gukmyeong] == " "\<close>.\<close>

definition is_noname :: "('z, 'c) surveypoint_row \<Rightarrow> bool" where
  "is_noname x = (gukmyeong x = Some '' '')"

text \<open>The replacement dictionary of \<^verbatim>\<open>enrich\<close>, lines 387 to 392.\<close>

definition noname_values :: "('z, 'c) surveypoint_row \<Rightarrow> ('z, 'c) surveypoint_row" where
  "noname_values x =
     x\<lparr>gukmyeong := Some ''Noname'', Owls_foods := Some ''Normal_S'',
       D_Level := Some ''D3'', Alternative_s := Some ''Normal_S''\<rparr>"

definition apply_noname_policy ::
  "bool \<Rightarrow> ('z, 'c) surveypoint_row list \<Rightarrow> ('z, 'c) surveypoint_row list" where
  "apply_noname_policy skip_noname df =
     (if skip_noname then drop_if df is_noname
      else replace_row df noname_values is_noname)"

text \<open>
  \<^verbatim>\<open>pd.to_numeric(column, errors="coerce").fillna(1)\<close>. The parser of numeric strings is
  pandas' own; it is the parameter \<open>parse\<close>, which answers \<open>None\<close> for a string that is
  not a number. A missing field and an unparsable string become NaN, which \<open>fillna\<close>
  replaces.
\<close>

definition to_numeric_coerce :: "(string \<Rightarrow> real option) \<Rightarrow> cell \<Rightarrow> real option" where
  "to_numeric_coerce parse c = (case c of Null \<Rightarrow> None | Num r \<Rightarrow> Some r | Str s \<Rightarrow> parse s)"

definition fillna :: "real \<Rightarrow> real option \<Rightarrow> real" where
  "fillna d v = (case v of None \<Rightarrow> d | Some r \<Rightarrow> r)"

definition coerce_count ::
  "(string \<Rightarrow> real option) \<Rightarrow> ('z, cell) surveypoint_row \<Rightarrow> ('z, real) surveypoint_row" where
  "coerce_count parse x =
     \<lparr>BT_ID = BT_ID x, gukmyeong = gukmyeong x,
      gaechesu = fillna 1 (to_numeric_coerce parse (gaechesu x)),
      Owls_foods = Owls_foods x, D_Level = D_Level x,
      Alternative_S = Alternative_S x, Alternative_s = Alternative_s x\<rparr>"

text \<open>
  \<^verbatim>\<open>enrich\<close>, from the table the spatial join gives: the merge, the placeholder policy,
  the coercion of the counts.
\<close>

definition enrich ::
  "(string \<Rightarrow> real option) \<Rightarrow> bool \<Rightarrow> 'z joined_row list \<Rightarrow> foodchain_info list
     \<Rightarrow> ('z, real) surveypoint_row list" where
  "enrich parse skip_noname joined info_df =
     map (coerce_count parse) (apply_noname_policy skip_noname (merge_info joined info_df))"

section \<open>The pandas operations of the calculators\<close>

text \<open>
  \<^verbatim>\<open>df.groupby(column)\<close>: one group per value of the column, the groups in the order of
  their keys, each with its rows in the order of the table. Rows whose key is null belong
  to no group, so the guard \<^verbatim>\<open>if bt_id is None: continue\<close> of the loops never fires: a key
  has the type of the column's values.
\<close>

definition groupby :: "('r \<Rightarrow> 'k::linorder option) \<Rightarrow> 'r list \<Rightarrow> ('k \<times> 'r list) list" where
  "groupby key df =
     map (\<lambda>k. (k, filter (\<lambda>x. key x = Some k) df)) (sort (remdups (List.map_filter key df)))"

text \<open>\<^verbatim>\<open>sub_df.groupby(column).sum()[gaechesu]\<close>: the sum of the counts of each group.\<close>

definition groupby_sum ::
  "(('z, real) surveypoint_row \<Rightarrow> 'k::linorder option) \<Rightarrow> ('z, real) surveypoint_row list
     \<Rightarrow> ('k \<times> real) list" where
  "groupby_sum key df = map (\<lambda>(k, g). (k, sum_list (map gaechesu g))) (groupby key df)"

text \<open>
  \<^verbatim>\<open>sub_df[column].value_counts()\<close>: the number of rows of each non-null value. pandas
  orders the series by falling count; the code only looks keys up in it.
\<close>

definition value_counts :: "('r \<Rightarrow> 'k::linorder option) \<Rightarrow> 'r list \<Rightarrow> ('k \<times> nat) list" where
  "value_counts key df = map (\<lambda>(k, g). (k, length g)) (groupby key df)"

text \<open>\<^verbatim>\<open>series.get(key, default)\<close>.\<close>

definition series_get :: "('k \<times> 'v) list \<Rightarrow> 'k \<Rightarrow> 'v \<Rightarrow> 'v" where
  "series_get s k d = (case map_of s k of None \<Rightarrow> d | Some v \<Rightarrow> v)"

text \<open>Division of numpy scalars: a zero divisor gives \<open>nan\<close> or an infinity, never an exception.\<close>

definition np_truediv :: "real \<Rightarrow> real \<Rightarrow> npfloat" where
  "np_truediv a b =
     (if b \<noteq> 0 then Fin (a / b) else if a = 0 then NaN else if 0 < a then PInf else NInf)"

text \<open>Indexing a Python tuple: a negative index counts from the end.\<close>

definition py_index :: "'a list \<Rightarrow> int \<Rightarrow> error + 'a" where
  "py_index xs i =
     (if 0 \<le> i \<and> i < int (length xs) then Inr (xs ! nat i)
      else if i < 0 \<and> - int (length xs) \<le> i then Inr (xs ! nat (int (length xs) + i))
      else Inl IndexError)"

text \<open>A loop that appends one row per group stops at the first row that raises.\<close>

fun collect :: "('e + 'a) list \<Rightarrow> 'e + 'a list" where
  "collect [] = Inr []"
| "collect (Inl e # xs) = Inl e"
| "collect (Inr v # xs) = (case collect xs of Inl e \<Rightarrow> Inl e | Inr vs \<Rightarrow> Inr (v # vs))"

text \<open>
  The last steps of every \<^verbatim>\<open>run\<close>:
  \<^verbatim>\<open>biotope_df[["BT_ID"]].merge(result_df, how="left", on="BT_ID")\<close> and
  \<^verbatim>\<open>fillna({RESULT: 0})\<close>. A row of \<open>result_df\<close> is its \<open>BT_ID\<close>, its count columns and
  its result; a biotope with no row gets null count columns and a null result, and the
  null results become 0.
\<close>

definition merge_left :: "'z list \<Rightarrow> ('z \<times> 'c \<times> npfloat) list \<Rightarrow> ('z \<times> 'c option \<times> npfloat) list" where
  "merge_left biotope_ids result_df =
     concat (map (\<lambda>z.
       case filter (\<lambda>r. fst r = z) result_df of
         [] \<Rightarrow> [(z, None, NaN)]
       | ms \<Rightarrow> map (\<lambda>(b, c, r). (z, Some c, r)) ms) biotope_ids)"

definition fillna_RESULT :: "('z \<times> 'c option \<times> npfloat) list \<Rightarrow> ('z \<times> 'c option \<times> npfloat) list" where
  "fillna_RESULT df = map (\<lambda>(z, c, r). (z, c, if r = NaN then Fin 0 else r)) df"

definition join_biotopes :: "'z list \<Rightarrow> ('z \<times> 'c \<times> npfloat) list \<Rightarrow> ('z \<times> 'c option \<times> npfloat) list" where
  "join_biotopes biotope_ids result_df = fillna_RESULT (merge_left biotope_ids result_df)"

section \<open>The five calculators\<close>

text \<open>
  Each \<^verbatim>\<open>run\<close> enriches the survey table, loops over the groups of
  \<^verbatim>\<open>surveypoint_df.groupby("BT_ID")\<close>, appends one row per group to \<open>table\<close>, and joins
  the table to the biotope table. \<^verbatim>\<open>arcutils.shp_to_df\<close> and \<^verbatim>\<open>arcutils.clean_join\<close>
  read and write shapefiles: the biotope table is the parameter \<open>biotope_ids\<close> (its
  \<open>BT_ID\<close> column), and the model of \<^verbatim>\<open>run\<close> returns the table that is handed to
  \<^verbatim>\<open>clean_join\<close>.
\<close>

subsection \<open>\<^verbatim>\<open>FoodResourceCount\<close> (PreyRatio)\<close>

definition FoodResourceCount_row ::
  "'z \<Rightarrow> ('z, real) surveypoint_row list \<Rightarrow> 'z \<times> (real \<times> real) \<times> npfloat" where
  "FoodResourceCount_row bt_id sub_df =
     (let count_s = groupby_sum Owls_foods sub_df;
          total_count = sum_list (map snd count_s);
          prey_count = series_get count_s ''Prey_S'' 0;
          result = np_truediv prey_count total_count
      in (bt_id, (prey_count, total_count), result))"

definition FoodResourceCount_table ::
  "('z::linorder, real) surveypoint_row list \<Rightarrow> ('z \<times> (real \<times> real) \<times> npfloat) list" where
  "FoodResourceCount_table surveypoint_df =
     map (\<lambda>(bt_id, sub_df). FoodResourceCount_row bt_id sub_df) (groupby BT_ID surveypoint_df)"

definition FoodResourceCount_run ::
  "(string \<Rightarrow> real option) \<Rightarrow> bool \<Rightarrow> 'z::linorder joined_row list \<Rightarrow> foodchain_info list
     \<Rightarrow> 'z list \<Rightarrow> ('z \<times> (real \<times> real) option \<times> npfloat) list" where
  "FoodResourceCount_run parse skip_noname joined info_df biotope_ids =
     join_biotopes biotope_ids (FoodResourceCount_table (enrich parse skip_noname joined info_df))"

subsection \<open>\<^verbatim>\<open>DiversityIndex\<close> (DiversityShannon)\<close>

text \<open>
  \<^verbatim>\<open>_get_shannon_index\<close> works on Python numbers: \<^verbatim>\<open>count / total\<close> raises
  ZeroDivisionError when the total is 0, and \<^verbatim>\<open>math.log2(p)\<close> raises ValueError when
  \<open>p\<close> is not positive. With no count at all nothing is divided and the sum is 0.
\<close>

fun sum_entropy :: "real list \<Rightarrow> error + real" where
  "sum_entropy [] = Inr 0"
| "sum_entropy (p # ps) =
     (if p \<le> 0 then Inl ValueError
      else case sum_entropy ps of Inl e \<Rightarrow> Inl e | Inr s \<Rightarrow> Inr (- (p * log 2 p) + s))"

definition get_shannon_index :: "real list \<Rightarrow> error + real" where
  "get_shannon_index counts =
     (let total = sum_list counts
      in if counts \<noteq> [] \<and> total = 0 then Inl ZeroDivisionError
         else sum_entropy (map (\<lambda>count. count / total) counts))"

text \<open>
  \<^verbatim>\<open>_minmax_normalize\<close>: the built-in \<^verbatim>\<open>max\<close> and \<^verbatim>\<open>min\<close> raise ValueError on an
  empty sequence; the elements of the series are Python floats, whose division raises
  ZeroDivisionError.
\<close>

definition minmax_normalize :: "real list \<Rightarrow> error + real list" where
  "minmax_normalize seq =
     (case seq of
        [] \<Rightarrow> Inl ValueError
      | x # xs \<Rightarrow>
          (let maximum = fold max xs x; minimum = fold min xs x
           in if maximum - minimum = 0 then Inl ZeroDivisionError
              else Inr (map (\<lambda>i. (i - minimum) / (maximum - minimum)) seq)))"

definition prey_species_counts :: "('z, real) surveypoint_row list \<Rightarrow> (string \<times> real) list" where
  "prey_species_counts sub_df =
     groupby_sum gukmyeong (filter (\<lambda>x. Owls_foods x = Some ''Prey_S'') sub_df)"

definition DiversityIndex_row ::
  "'z \<Rightarrow> ('z, real) surveypoint_row list \<Rightarrow> error + ('z \<times> real \<times> real)" where
  "DiversityIndex_row bt_id sub_df =
     (let count_s = prey_species_counts sub_df
      in case get_shannon_index (map snd count_s) of
           Inl e \<Rightarrow> Inl e
         | Inr shannon_index \<Rightarrow> Inr (bt_id, sum_list (map snd count_s), shannon_index))"

definition DiversityIndex_table ::
  "('z::linorder, real) surveypoint_row list \<Rightarrow> error + ('z \<times> real \<times> real) list" where
  "DiversityIndex_table surveypoint_df =
     collect (map (\<lambda>(bt_id, sub_df). DiversityIndex_row bt_id sub_df)
       (groupby BT_ID surveypoint_df))"

definition DiversityIndex_result ::
  "('z \<times> real \<times> real) list \<Rightarrow> error + ('z \<times> (real \<times> real) \<times> npfloat) list" where
  "DiversityIndex_result table =
     (case minmax_normalize (map (\<lambda>(bt_id, prey_n, shannon). shannon) table) of
        Inl e \<Rightarrow> Inl e
      | Inr results \<Rightarrow>
          Inr (map2 (\<lambda>(bt_id, prey_n, shannon) r. (bt_id, (prey_n, shannon), Fin r))
                 table results))"

definition DiversityIndex_run ::
  "(string \<Rightarrow> real option) \<Rightarrow> bool \<Rightarrow> 'z::linorder joined_row list \<Rightarrow> foodchain_info list
     \<Rightarrow> 'z list \<Rightarrow> error + ('z \<times> (real \<times> real) option \<times> npfloat) list" where
  "DiversityIndex_run parse skip_noname joined info_df biotope_ids =
     (case DiversityIndex_table (enrich parse skip_noname joined info_df) of
        Inl e \<Rightarrow> Inl e
      | Inr table \<Rightarrow>
          (case DiversityIndex_result table of
             Inl e \<Rightarrow> Inl e
           | Inr result_df \<Rightarrow> Inr (join_biotopes biotope_ids result_df)))"

subsection \<open>\<^verbatim>\<open>CombinableProducersAndConsumers\<close> (TrophicCoverage)\<close>

definition CombinableProducersAndConsumers_row ::
  "real list \<Rightarrow> 'z \<Rightarrow> ('z, real) surveypoint_row list \<Rightarrow> error + ('z \<times> nat list \<times> npfloat)" where
  "CombinableProducersAndConsumers_row scores bt_id sub_df =
     (let count_s = value_counts D_Level sub_df;
          d_counts = map (\<lambda>d_name. series_get count_s d_name 0) [''D1'', ''D2'', ''D3''];
          unique_count = length (filter (\<lambda>d_count. d_count \<noteq> 0) d_counts)
      in case py_index scores (3 - int unique_count) of
           Inl e \<Rightarrow> Inl e
         | Inr score \<Rightarrow> Inr (bt_id, d_counts, Fin score))"

definition CombinableProducersAndConsumers_table ::
  "real list \<Rightarrow> ('z::linorder, real) surveypoint_row list
     \<Rightarrow> error + ('z \<times> nat list \<times> npfloat) list" where
  "CombinableProducersAndConsumers_table scores surveypoint_df =
     collect (map (\<lambda>(bt_id, sub_df). CombinableProducersAndConsumers_row scores bt_id sub_df)
       (groupby BT_ID surveypoint_df))"

definition CombinableProducersAndConsumers_run ::
  "real list \<Rightarrow> (string \<Rightarrow> real option) \<Rightarrow> bool \<Rightarrow> 'z::linorder joined_row list
     \<Rightarrow> foodchain_info list \<Rightarrow> 'z list \<Rightarrow> error + ('z \<times> nat list option \<times> npfloat) list" where
  "CombinableProducersAndConsumers_run scores parse skip_noname joined info_df biotope_ids =
     (case CombinableProducersAndConsumers_table scores (enrich parse skip_noname joined info_df) of
        Inl e \<Rightarrow> Inl e
      | Inr table \<Rightarrow> Inr (join_biotopes biotope_ids table))"

subsection \<open>\<^verbatim>\<open>ConnectionStrength\<close> (ConnectionPresence)\<close>

definition ConnectionStrength_row ::
  "'z \<Rightarrow> ('z, real) surveypoint_row list \<Rightarrow> 'z \<times> nat \<times> npfloat" where
  "ConnectionStrength_row bt_id sub_df =
     (let count_s = value_counts Owls_foods sub_df;
          prey_count = series_get count_s ''Prey_S'' 0
      in (bt_id, prey_count, Fin (if prey_count > 0 then 1 else 0)))"

definition ConnectionStrength_table ::
  "('z::linorder, real) surveypoint_row list \<Rightarrow> ('z \<times> nat \<times> npfloat) list" where
  "ConnectionStrength_table surveypoint_df =
     map (\<lambda>(bt_id, sub_df). ConnectionStrength_row bt_id sub_df) (groupby BT_ID surveypoint_df)"

definition ConnectionStrength_run ::
  "(string \<Rightarrow> real option) \<Rightarrow> bool \<Rightarrow> 'z::linorder joined_row list \<Rightarrow> foodchain_info list
     \<Rightarrow> 'z list \<Rightarrow> ('z \<times> nat option \<times> npfloat) list" where
  "ConnectionStrength_run parse skip_noname joined info_df biotope_ids =
     join_biotopes biotope_ids (ConnectionStrength_table (enrich parse skip_noname joined info_df))"

subsection \<open>\<^verbatim>\<open>SimilarFunctionalSpecies\<close> (FunctionalSubstitution)\<close>

definition SimilarFunctionalSpecies_row ::
  "'z \<Rightarrow> ('z, real) surveypoint_row list \<Rightarrow> 'z \<times> (nat \<times> nat \<times> nat \<times> nat) \<times> npfloat" where
  "SimilarFunctionalSpecies_row bt_id sub_df =
     (let count_s = value_counts Alternative_S sub_df;
          threatened_count = series_get count_s ''Threatened_S'' 0;
          alt_alien_count = series_get count_s ''Alt_Alien_S'' 0;
          alt_count = series_get count_s ''Alt_S'' 0;
          normal_count = series_get count_s ''Normal_S'' 0
      in (bt_id, (threatened_count, alt_alien_count, alt_count, normal_count),
          Fin (if alt_count > 0 then 1 else 0)))"

definition SimilarFunctionalSpecies_table ::
  "('z::linorder, real) surveypoint_row list
     \<Rightarrow> ('z \<times> (nat \<times> nat \<times> nat \<times> nat) \<times> npfloat) list" where
  "SimilarFunctionalSpecies_table surveypoint_df =
     map (\<lambda>(bt_id, sub_df). SimilarFunctionalSpecies_row bt_id sub_df)
       (groupby BT_ID surveypoint_df)"

definition SimilarFunctionalSpecies_run ::
  "(string \<Rightarrow> real option) \<Rightarrow> bool \<Rightarrow> 'z::linorder joined_row list \<Rightarrow> foodchain_info list
     \<Rightarrow> 'z list \<Rightarrow> ('z \<times> (nat \<times> nat \<times> nat \<times> nat) option \<times> npfloat) list" where
  "SimilarFunctionalSpecies_run parse skip_noname joined info_df biotope_ids =
     join_biotopes biotope_ids
       (SimilarFunctionalSpecies_table (enrich parse skip_noname joined info_df))"

section \<open>The coverage property of an index table\<close>

text \<open>
  What the spec asks of the table a calculator hands over: its \<open>BT_ID\<close> column is the
  \<open>BT_ID\<close> column of the biotope table, row for row; no result is null; and a biotope in
  which no observation of the enriched table lies has null count columns and the result 0.
\<close>

definition coverage ::
  "'z list \<Rightarrow> ('z, real) surveypoint_row list \<Rightarrow> ('z \<times> 'c option \<times> npfloat) list \<Rightarrow> bool" where
  "coverage biotope_ids surveypoint_df out =
     (map fst out = biotope_ids
      \<and> list_all (\<lambda>(z, c, r). r \<noteq> NaN
            \<and> (Some z \<notin> BT_ID ` set surveypoint_df \<longrightarrow> c = None \<and> r = Fin 0)) out)"

section \<open>Sample tables\<close>

text \<open>
  Concrete inputs for the instances below. \<open>parse_unsigned\<close> reads unsigned decimal
  integers and rejects everything else; it stands for pandas' parser there. The sample
  information table lists three species; any other name has no row in it.
\<close>

definition parse_unsigned :: "string \<Rightarrow> real option" where
  "parse_unsigned s =
     (if s \<noteq> [] \<and> list_all (\<lambda>c. c \<in> set ''0123456789'') s
      then Some (real (foldl (\<lambda>n c. 10 * n + (of_char c - 48)) 0 s)) else None)"

definition survey_point :: "'z option \<Rightarrow> string \<Rightarrow> cell \<Rightarrow> 'z joined_row" where
  "survey_point z n c = \<lparr>joined_BT_ID = z, joined_gukmyeong = Some n, joined_gaechesu = c\<rparr>"

definition info_row :: "string \<Rightarrow> string \<Rightarrow> string \<Rightarrow> string \<Rightarrow> foodchain_info" where
  "info_row n f d a =
     \<lparr>S_Name = Some n, info_Owls_foods = Some f, info_D_Level = Some d,
      info_Alternative_S = Some a\<rparr>"

definition sample_info :: "foodchain_info list" where
  "sample_info =
     [info_row ''vole'' ''Prey_S'' ''D1'' ''Alt_S'',
      info_row ''shrew'' ''Prey_S'' ''D2'' ''Normal_S'',
      info_row ''heron'' ''Normal_S'' ''D3'' ''Threatened_S'']"

text \<open>An enriched observation, written field by field.\<close>

definition observation ::
  "'z option \<Rightarrow> string \<Rightarrow> real \<Rightarrow> string option \<Rightarrow> string option \<Rightarrow> string option
     \<Rightarrow> ('z, real) surveypoint_row" where
  "observation z n c f d a =
     \<lparr>BT_ID = z, gukmyeong = Some n, gaechesu = c, Owls_foods = f, D_Level = d,
      Alternative_S = a, Alternative_s = None\<rparr>"

text \<open>
  Four survey points: two prey species in biotope 1, one in biotope 2, and a point outside
  every biotope.
\<close>

definition sample_joined :: "nat joined_row list" where
  "sample_joined =
     [survey_point (Some 1) ''vole'' (Str ''1''), survey_point (Some 1) ''shrew'' Null,
      survey_point (Some 2) ''vole'' (Str ''2''), survey_point None ''heron'' (Str ''4'')]"

section \<open>Properties of the enrichment\<close>

lemmas sample_defs = sample_info_def info_row_def survey_point_def parse_unsigned_def observation_def
lemmas enrich_defs = enrich_def merge_info_def with_info_def apply_noname_policy_def drop_if_def
  replace_row_def is_noname_def noname_values_def coerce_count_def to_numeric_coerce_def fillna_def
lemmas pandas_defs = groupby_def groupby_sum_def value_counts_def series_get_def np_truediv_def
  py_index_def join_biotopes_def merge_left_def fillna_RESULT_def

lemma merge_info_append:
  "merge_info (xs @ ys) info_df = merge_info xs info_df @ merge_info ys info_df"
  by (simp add: merge_info_def)

lemma gukmyeong_merge_info:
  "r \<in> set (merge_info [x] info_df) \<Longrightarrow> gukmyeong r = joined_gukmyeong x"
  by (auto simp: merge_info_def with_info_def split: list.splits)

lemma apply_noname_policy_append:
  "apply_noname_policy b (xs @ ys) = apply_noname_policy b xs @ apply_noname_policy b ys"
  by (simp add: apply_noname_policy_def drop_if_def replace_row_def)

lemma enrich_append:
  "enrich parse b (xs @ ys) info_df = enrich parse b xs info_df @ enrich parse b ys info_df"
  by (simp add: enrich_def merge_info_append apply_noname_policy_append)

lemma apply_noname_policy_same_name:
  assumes "\<forall>r\<in>set df. gukmyeong r = n"
  shows "apply_noname_policy b df =
           (if n = Some '' '' then (if b then [] else map noname_values df) else df)"
  using assms
  by (induction df) (auto simp: apply_noname_policy_def drop_if_def replace_row_def is_noname_def)

text \<open>
  Claim C10. The placeholder that both policies recognise is exactly the one-space string.
  Whatever survey points come before and after it, a survey point \<open>x\<close> whose species name
  is anything else (the empty string, two spaces, a null name, any other name) is neither
  dropped nor given the fallback values, under either policy: its enriched rows are those
  of the ordinary merge and count coercion. A survey point whose name is the one-space
  string is dropped under \<open>skip_noname\<close> and gets the fallback values otherwise.
\<close>

theorem placeholder_is_single_space:
  "enrich parse skip_noname (xs @ x # ys) info_df =
     enrich parse skip_noname xs info_df
     @ (if joined_gukmyeong x = Some '' ''
        then (if skip_noname then []
              else map (\<lambda>r. coerce_count parse (noname_values r)) (merge_info [x] info_df))
        else map (coerce_count parse) (merge_info [x] info_df))
     @ enrich parse skip_noname ys info_df"
proof -
  have "xs @ x # ys = xs @ [x] @ ys" by simp
  moreover have "enrich parse skip_noname [x] info_df =
     (if joined_gukmyeong x = Some '' ''
        then (if skip_noname then []
              else map (\<lambda>r. coerce_count parse (noname_values r)) (merge_info [x] info_df))
        else map (coerce_count parse) (merge_info [x] info_df))"
    using apply_noname_policy_same_name [of "merge_info [x] info_df" "joined_gukmyeong x" skip_noname]
    by (simp add: enrich_def gukmyeong_merge_info comp_def)
  ultimately show ?thesis
    by (simp only: enrich_append)
qed

theorem placeholder_is_single_space_witness:
  "map gukmyeong (enrich parse_unsigned True
     [survey_point (Some (1::nat)) '''' Null, survey_point (Some 1) '' '' Null,
      survey_point (Some 1) ''  '' Null, survey_point (Some 1) ''vole'' Null] sample_info)
   = [Some '''', Some ''  '', Some ''vole'']
   \<and> map gukmyeong (enrich parse_unsigned False
     [survey_point (Some (1::nat)) '''' Null, survey_point (Some 1) '' '' Null,
      survey_point (Some 1) ''  '' Null, survey_point (Some 1) ''vole'' Null] sample_info)
   = [Some '''', Some ''Noname'', Some ''  '', Some ''vole'']"
  using placeholder_is_single_space [of parse_unsigned True
      "[survey_point (Some (1::nat)) '''' Null]" "survey_point (Some 1) '' '' Null"
      "[survey_point (Some 1) ''  '' Null, survey_point (Some 1) ''vole'' Null]" sample_info]
    placeholder_is_single_space [of parse_unsigned False
      "[survey_point (Some (1::nat)) '''' Null]" "survey_point (Some 1) '' '' Null"
      "[survey_point (Some 1) ''  '' Null, survey_point (Some 1) ''vole'' Null]" sample_info]
  by (simp add: enrich_defs sample_defs)

text \<open>
  Claim C7. In the table that \<^verbatim>\<open>enrich\<close> coerces, a row whose raw count field is missing,
  or is a string that the numeric parser rejects, has the count 1 in the enriched table.
  \<^verbatim>\<open>enrich\<close> returns a table for every input: the parse failure is not raised.
\<close>

theorem malformed_count_defaults_to_one:
  assumes "df = apply_noname_policy skip_noname (merge_info joined info_df)"
    and "i < length df"
    and "gaechesu (df ! i) = Null \<or> (\<exists>s. gaechesu (df ! i) = Str s \<and> parse s = None)"
  shows "i < length (enrich parse skip_noname joined info_df)
         \<and> gaechesu (enrich parse skip_noname joined info_df ! i) = 1"
  using assms
  by (auto simp: enrich_def coerce_count_def to_numeric_coerce_def fillna_def)

theorem malformed_count_defaults_to_one_witness:
  "parse_unsigned ''many'' = None
   \<and> gaechesu (enrich parse_unsigned True
      [survey_point (Some (1::nat)) ''vole'' (Str ''3''),
       survey_point (Some 1) ''shrew'' (Str ''many''),
       survey_point (Some 1) ''heron'' Null] sample_info ! 1) = 1
   \<and> gaechesu (enrich parse_unsigned True
      [survey_point (Some (1::nat)) ''vole'' (Str ''3''),
       survey_point (Some 1) ''shrew'' (Str ''many''),
       survey_point (Some 1) ''heron'' Null] sample_info ! 2) = 1"
proof -
  let ?joined = "[survey_point (Some (1::nat)) ''vole'' (Str ''3''),
       survey_point (Some 1) ''shrew'' (Str ''many''),
       survey_point (Some 1) ''heron'' Null]"
  let ?df = "apply_noname_policy True (merge_info ?joined sample_info)"
  have len: "length ?df = 3"
    and g1: "gaechesu (?df ! 1) = Str ''many''" and g2: "gaechesu (?df ! 2) = Null"
    by (simp_all add: enrich_defs sample_defs)
  have p: "parse_unsigned ''many'' = None"
    by (simp add: parse_unsigned_def)
  show ?thesis
    using malformed_count_defaults_to_one [of ?df True ?joined sample_info 1 parse_unsigned]
      malformed_count_defaults_to_one [of ?df True ?joined sample_info 2 parse_unsigned]
      len g1 g2 p by simp
qed


section \<open>Properties of the calculators on degenerate tables\<close>

lemmas calc_defs = FoodResourceCount_run_def FoodResourceCount_table_def FoodResourceCount_row_def
  DiversityIndex_run_def DiversityIndex_table_def DiversityIndex_row_def DiversityIndex_result_def
  prey_species_counts_def get_shannon_index_def minmax_normalize_def
  CombinableProducersAndConsumers_run_def CombinableProducersAndConsumers_table_def
  CombinableProducersAndConsumers_row_def
  ConnectionStrength_run_def ConnectionStrength_table_def ConnectionStrength_row_def
  SimilarFunctionalSpecies_run_def SimilarFunctionalSpecies_table_def SimilarFunctionalSpecies_row_def

lemma enrich_Nil: "enrich parse skip_noname [] info_df = []"
  by (simp add: enrich_defs)

lemma groupby_Nil: "groupby key [] = []"
  by (simp add: groupby_def)

lemma join_biotopes_Nil: "join_biotopes biotope_ids [] = map (\<lambda>z. (z, None, Fin 0)) biotope_ids"
  by (induction biotope_ids) (simp_all add: join_biotopes_def merge_left_def fillna_RESULT_def)

lemma other_calculators_on_empty_table:
  "FoodResourceCount_run parse skip_noname [] info_df biotope_ids
     = map (\<lambda>z. (z, None, Fin 0)) biotope_ids"
  "CombinableProducersAndConsumers_run scores parse skip_noname [] info_df biotope_ids
     = Inr (map (\<lambda>z. (z, None, Fin 0)) biotope_ids)"
  "ConnectionStrength_run parse skip_noname [] info_df biotope_ids
     = map (\<lambda>z. (z, None, Fin 0)) biotope_ids"
  "SimilarFunctionalSpecies_run parse skip_noname [] info_df biotope_ids
     = map (\<lambda>z. (z, None, Fin 0)) biotope_ids"
  by (simp_all add: calc_defs enrich_Nil groupby_Nil join_biotopes_Nil)

text \<open>
  Claim C5 says that on an empty enriched table every calculator succeeds and every
  biotope gets its 0 from the join alone. The four calculators above do (lemma
  \<open>other_calculators_on_empty_table\<close>). \<^verbatim>\<open>DiversityIndex.run\<close> does not: its loop appends no
  row, and \<^verbatim>\<open>_minmax_normalize\<close> then calls \<^verbatim>\<open>max\<close> on the empty column, which raises
  ValueError before the join is reached.
\<close>

theorem DiversityIndex_raises_on_empty_table:
  "DiversityIndex_table (enrich parse skip_noname [] info_df) = Inr []
   \<and> DiversityIndex_run parse skip_noname [] info_df biotope_ids = Inl ValueError"
  by (simp add: calc_defs enrich_Nil groupby_Nil)

text \<open>
  Claim C3 says that under the retain policy (\<open>skip_noname = False\<close>) a placeholder row
  keeps its place and gets the diet category \<open>Normal_S\<close>, the tier \<open>D3\<close> and the
  substitution class \<open>Normal_S\<close>. The first two are written. The third is written into the
  column \<open>Alternative_s\<close>, which no calculator reads: the column \<open>Alternative_S\<close> of the row
  stays what the merge gave it (null here, since the information table has no row for the
  placeholder), and \<^verbatim>\<open>SimilarFunctionalSpecies\<close> counts no normal species in the biotope.
\<close>

theorem noname_row_keeps_Alternative_S:
  "enrich parse_unsigned False [survey_point (Some (1::nat)) '' '' (Str ''2'')] sample_info
     = [\<lparr>BT_ID = Some 1, gukmyeong = Some ''Noname'', gaechesu = 2,
         Owls_foods = Some ''Normal_S'', D_Level = Some ''D3'', Alternative_S = None,
         Alternative_s = Some ''Normal_S''\<rparr>]
   \<and> SimilarFunctionalSpecies_run parse_unsigned False
       [survey_point (Some (1::nat)) '' '' (Str ''2'')] sample_info [1]
     = [(1, Some (0, 0, 0, 0), Fin 0)]"
  by (simp add: calc_defs enrich_defs sample_defs pandas_defs)

text \<open>
  Claim C4 says that the lookup \<^verbatim>\<open>scores[3 - unique_count]\<close> is defined for every reachable
  number of distinct tiers, 0 to 3. With the three scores \<open>(1, 0.6, 0.3)\<close> it is defined for
  1, 2 and 3 tiers (two tiers score 0.6, lemma \<open>two_tiers_score\<close>). A biotope whose
  observations all lack a tier (a species without a row in the information table) has 0
  distinct tiers, and \<^verbatim>\<open>scores[3]\<close> raises IndexError.
\<close>

theorem no_tier_raises_IndexError:
  "map D_Level (enrich parse_unsigned True
       [survey_point (Some (1::nat)) ''marten'' (Str ''2'')] sample_info) = [None]
   \<and> CombinableProducersAndConsumers_run [1, 0.6, 0.3] parse_unsigned True
       [survey_point (Some (1::nat)) ''marten'' (Str ''2'')] sample_info [1]
     = Inl IndexError"
  by (simp add: calc_defs enrich_defs sample_defs pandas_defs)

lemma two_tiers_score:
  "CombinableProducersAndConsumers_run [1, 0.6, 0.3] parse_unsigned True
       [survey_point (Some (1::nat)) ''vole'' (Str ''2''), survey_point (Some 1) ''heron'' Null,
        survey_point (Some 1) ''vole'' Null] sample_info [1]
     = Inr [(1, Some [2, 0, 1], Fin 0.6)]"
  by (simp add: calc_defs enrich_defs sample_defs pandas_defs)

lemma fold_max_Max: "fold max xs (x::real) = Max (set (x # xs))"
  by (rule Max.set_eq_fold [symmetric])

lemma fold_min_Min: "fold min xs (x::real) = Min (set (x # xs))"
  by (rule Min.set_eq_fold [symmetric])

lemma minmax_normalize_equal:
  assumes "seq \<noteq> []" and "Max (set seq) = Min (set seq)"
  shows "minmax_normalize seq = Inl ZeroDivisionError"
proof (cases seq)
  case Nil
  with assms show ?thesis by simp
next
  case (Cons x xs)
  with assms have "fold max xs x = fold min xs x"
    by (simp only: fold_max_Max fold_min_Min)
  with Cons show ?thesis
    by (simp add: minmax_normalize_def)
qed

text \<open>
  Claim C6. When the loop of \<^verbatim>\<open>DiversityIndex.run\<close> has computed the entropy of at least
  one biotope and the largest and the smallest entropy are equal, \<^verbatim>\<open>_minmax_normalize\<close>
  divides by zero: it raises ZeroDivisionError, and so does \<^verbatim>\<open>run\<close>, which returns no
  normalised result.
\<close>

theorem degenerate_normalization_raises:
  assumes "DiversityIndex_table (enrich parse skip_noname joined info_df) = Inr table"
    and "table \<noteq> []"
    and "Max (set (map (\<lambda>(bt_id, prey_n, shannon). shannon) table))
           = Min (set (map (\<lambda>(bt_id, prey_n, shannon). shannon) table))"
  shows "minmax_normalize (map (\<lambda>(bt_id, prey_n, shannon). shannon) table) = Inl ZeroDivisionError
         \<and> DiversityIndex_run parse skip_noname joined info_df biotope_ids = Inl ZeroDivisionError"
proof -
  have "minmax_normalize (map (\<lambda>(bt_id, prey_n, shannon). shannon) table) = Inl ZeroDivisionError"
    using assms(2,3) by (intro minmax_normalize_equal) simp_all
  then show ?thesis
    using assms(1) by (simp add: DiversityIndex_run_def DiversityIndex_result_def)
qed

theorem degenerate_normalization_raises_witness:
  "DiversityIndex_table (enrich parse_unsigned True
       [survey_point (Some (1::nat)) ''vole'' (Str ''2''), survey_point (Some 2) ''shrew'' Null]
       sample_info) = Inr [(1, 2, 0), (2, 1, 0)]
   \<and> DiversityIndex_run parse_unsigned True
       [survey_point (Some (1::nat)) ''vole'' (Str ''2''), survey_point (Some 2) ''shrew'' Null]
       sample_info [1, 2, 3] = Inl ZeroDivisionError"
proof -
  have t: "DiversityIndex_table (enrich parse_unsigned True
       [survey_point (Some (1::nat)) ''vole'' (Str ''2''), survey_point (Some 2) ''shrew'' Null]
       sample_info) = Inr [(1, 2, 0), (2, 1, 0)]"
    by (simp add: calc_defs enrich_defs sample_defs pandas_defs)
  show ?thesis
    using degenerate_normalization_raises [OF t, of "[1, 2, 3]"] t by simp
qed


section \<open>Grouping and summing\<close>

lemma keys_groupby: "map fst (groupby key df) = sort (remdups (List.map_filter key df))"
  by (simp add: groupby_def comp_def)

lemma distinct_keys_groupby: "distinct (map fst (groupby key df))"
  by (simp add: keys_groupby)

lemma set_keys_groupby: "fst ` set (groupby key df) = {k. \<exists>x\<in>set df. key x = Some k}"
proof -
  have "fst ` set (groupby key df) = set (map fst (groupby key df))" by simp
  also have "\<dots> = set (List.map_filter key df)" by (simp only: keys_groupby set_sort set_remdups)
  also have "\<dots> = {k. \<exists>x\<in>set df. key x = Some k}" by (force simp: List.map_filter_def)
  finally show ?thesis .
qed

lemma groupby_alt:
  "groupby key df = map (\<lambda>k. (k, filter (\<lambda>x. key x = Some k) df)) (map fst (groupby key df))"
  by (simp add: groupby_def comp_def)

lemma map_of_groupby:
  "map_of (groupby key df) k =
     (if \<exists>x\<in>set df. key x = Some k then Some (filter (\<lambda>x. key x = Some k) df) else None)"
proof -
  have "map_of (groupby key df) k
          = ((Some \<circ> (\<lambda>k. filter (\<lambda>x. key x = Some k) df)) |` set (map fst (groupby key df))) k"
    by (subst groupby_alt) (simp only: map_of_map_restrict)
  then show ?thesis
    using set_keys_groupby [of key df] by (simp add: restrict_map_def)
qed

lemma map_of_map_value:
  "map_of (map (\<lambda>(k, g). (k, f g)) xs) k = map_option f (map_of xs k)"
  by (induction xs) auto

lemma filter_empty_iff_key: "\<forall>x\<in>set df. key x \<noteq> Some k \<Longrightarrow> filter (\<lambda>x. key x = Some k) df = []"
  by (auto simp: filter_empty_conv image_iff)

lemma series_get_groupby_sum:
  "series_get (groupby_sum key df) k 0 = sum_list (map gaechesu (filter (\<lambda>x. key x = Some k) df))"
  by (simp add: series_get_def groupby_sum_def map_of_map_value map_of_groupby filter_empty_iff_key)

lemma series_get_value_counts:
  "series_get (value_counts key df) k 0 = length (filter (\<lambda>x. key x = Some k) df)"
  by (simp add: series_get_def value_counts_def map_of_map_value map_of_groupby filter_empty_iff_key)

lemma sum_over_keys:
  assumes "finite K" and "\<forall>x\<in>set df. \<forall>k. key x = Some k \<longrightarrow> k \<in> K"
  shows "(\<Sum>k\<in>K. sum_list (map (f::'r \<Rightarrow> real) (filter (\<lambda>x. key x = Some k) df)))
           = sum_list (map f (filter (\<lambda>x. key x \<noteq> None) df))"
  using assms(2)
proof (induction df)
  case Nil
  then show ?case by simp
next
  case (Cons x df)
  show ?case
  proof (cases "key x")
    case None
    with Cons show ?thesis by simp
  next
    case (Some k0)
    with Cons.prems have k0: "k0 \<in> K" by simp
    have "(\<Sum>k\<in>K. sum_list (map f (filter (\<lambda>y. key y = Some k) (x # df))))
            = (\<Sum>k\<in>K. (if k = k0 then f x else 0)
                       + sum_list (map f (filter (\<lambda>y. key y = Some k) df)))"
      using Some by (intro sum.cong) auto
    also have "\<dots> = f x + (\<Sum>k\<in>K. sum_list (map f (filter (\<lambda>y. key y = Some k) df)))"
      using assms(1) k0 by (simp add: sum.distrib)
    finally show ?thesis
      using Cons Some by simp
  qed
qed

lemma total_groupby_sum:
  "sum_list (map snd (groupby_sum key df))
     = sum_list (map gaechesu (filter (\<lambda>x. key x \<noteq> None) df))"
proof -
  define ks where "ks = map fst (groupby key df)"
  define g where "g = (\<lambda>k. sum_list (map gaechesu (filter (\<lambda>x. key x = Some k) df)))"
  have ks: "distinct ks" "set ks = {k. \<exists>x\<in>set df. key x = Some k}"
    using distinct_keys_groupby [of key df] set_keys_groupby [of key df] by (simp_all add: ks_def)
  have "groupby key df = map (\<lambda>k. (k, filter (\<lambda>x. key x = Some k) df)) ks"
    unfolding ks_def by (rule groupby_alt)
  then have "map snd (groupby_sum key df) = map g ks"
    by (simp add: groupby_sum_def g_def comp_def)
  then have "sum_list (map snd (groupby_sum key df)) = (\<Sum>k\<in>set ks. g k)"
    using ks(1) by (simp add: sum_list_distinct_conv_sum_set)
  also have "\<dots> = sum_list (map gaechesu (filter (\<lambda>x. key x \<noteq> None) df))"
  proof -
    have "\<forall>x\<in>set df. \<forall>k. key x = Some k \<longrightarrow> k \<in> set ks"
      using ks(2) by blast
    then show ?thesis
      unfolding g_def by (intro sum_over_keys) simp_all
  qed
  finally show ?thesis .
qed

section \<open>The join with the biotope table\<close>

lemma filter_key_distinct:
  "distinct (map fst t) \<Longrightarrow> filter (\<lambda>r. fst r = z) t = [] \<or> (\<exists>r. filter (\<lambda>r. fst r = z) t = [r])"
proof (induction t)
  case Nil
  then show ?case by simp
next
  case (Cons a t)
  show ?case
  proof (cases "fst a = z")
    case True
    from Cons.prems have "fst a \<notin> fst ` set t" by simp
    with True have "\<forall>r\<in>set t. fst r \<noteq> z" by blast
    then have "filter (\<lambda>r. fst r = z) t = []" by (simp add: filter_empty_conv)
    with True show ?thesis by simp
  next
    case False
    with Cons show ?thesis by simp
  qed
qed

lemma keys_merge_left:
  assumes "distinct (map fst table)"
  shows "map fst (merge_left biotope_ids table) = biotope_ids"
proof (induction biotope_ids)
  case Nil
  then show ?case by (simp add: merge_left_def)
next
  case (Cons z zs)
  have "map fst (case filter (\<lambda>r. fst r = z) table of [] \<Rightarrow> [(z, None, NaN)]
                 | ms \<Rightarrow> map (\<lambda>(b, c, r). (z, Some c, r)) ms) = [z]"
    using filter_key_distinct [OF assms, of z] by (auto split: prod.splits)
  with Cons show ?case by (simp add: merge_left_def)
qed

lemma set_merge_left:
  "(z, c, r) \<in> set (merge_left biotope_ids table) \<longleftrightarrow>
     z \<in> set biotope_ids
     \<and> (if z \<in> fst ` set table then \<exists>c'. c = Some c' \<and> (z, c', r) \<in> set table
        else c = None \<and> r = NaN)"
proof -
  have one: "(z, c, r) \<in> set (case filter (\<lambda>r. fst r = y) table of [] \<Rightarrow> [(y, None, NaN)]
                 | ms \<Rightarrow> map (\<lambda>(b, c, r). (y, Some c, r)) ms) \<longleftrightarrow>
        z = y \<and> (if y \<in> fst ` set table then \<exists>c'. c = Some c' \<and> (y, c', r) \<in> set table
        else c = None \<and> r = NaN)" for y
  proof (cases "filter (\<lambda>r. fst r = y) table")
    case Nil
    then have "y \<notin> fst ` set table" by (auto simp: filter_empty_conv)
    with Nil show ?thesis by auto
  next
    case (Cons m ms)
    then have "m \<in> set (filter (\<lambda>r. fst r = y) table)" by simp
    then have in_t: "y \<in> fst ` set table" by force
    have "set (m # ms) = {r \<in> set table. fst r = y}"
      using Cons [symmetric] by simp
    then have "(z, c, r) \<in> set (map (\<lambda>(b, c, r). (y, Some c, r)) (m # ms)) \<longleftrightarrow>
        z = y \<and> (\<exists>c'. c = Some c' \<and> (y, c', r) \<in> set table)"
      by (simp only: set_map) force
    with Cons in_t show ?thesis by simp
  qed
  show ?thesis
    unfolding merge_left_def set_concat set_map by (auto simp: one)
qed

lemma coverage_join_biotopes:
  assumes "distinct (map fst table)"
    and "fst ` set table \<subseteq> {z. Some z \<in> BT_ID ` set surveypoint_df}"
  shows "coverage biotope_ids surveypoint_df (join_biotopes biotope_ids table)"
proof -
  have keys: "map fst (join_biotopes biotope_ids table) = biotope_ids"
    using keys_merge_left [OF assms(1), of biotope_ids]
    by (simp add: join_biotopes_def fillna_RESULT_def comp_def case_prod_unfold)
  have rows: "r \<noteq> NaN \<and> (Some z \<notin> BT_ID ` set surveypoint_df \<longrightarrow> c = None \<and> r = Fin 0)"
    if "(z, c, r) \<in> set (join_biotopes biotope_ids table)" for z c r
  proof -
    from that obtain r' where r': "(z, c, r') \<in> set (merge_left biotope_ids table)"
      and r: "r = (if r' = NaN then Fin 0 else r')"
      by (auto simp: join_biotopes_def fillna_RESULT_def)
    have "c = None \<and> r' = NaN" if "Some z \<notin> BT_ID ` set surveypoint_df"
    proof -
      from that assms(2) have "z \<notin> fst ` set table" by blast
      with r' show ?thesis by (simp add: set_merge_left)
    qed
    with r show ?thesis by auto
  qed
  show ?thesis
    unfolding coverage_def list_all_iff using keys rows by auto
qed

lemma collect_map_Inr:
  "collect (map f xs) = Inr ys \<Longrightarrow> list_all2 (\<lambda>x y. f x = Inr y) xs ys"
proof (induction xs arbitrary: ys)
  case Nil
  then show ?case by simp
next
  case (Cons x xs)
  then show ?case
    by (cases "f x") (auto split: sum.splits)
qed

lemma keys_of_collected_rows:
  assumes "collect (map (\<lambda>(bt_id, sub_df). row bt_id sub_df) groups) = Inr table"
    and "\<And>bt_id sub_df y. row bt_id sub_df = Inr y \<Longrightarrow> fst y = bt_id"
  shows "map fst table = map fst groups"
proof -
  have "list_all2 (\<lambda>x y. (case x of (bt_id, sub_df) \<Rightarrow> row bt_id sub_df) = Inr y) groups table"
    using assms(1) by (rule collect_map_Inr)
  then have "list_all2 (\<lambda>x y. fst y = fst x) groups table"
    by (rule list_all2_mono) (auto dest: assms(2))
  then show ?thesis
    by (induction rule: list_all2_induct) simp_all
qed

lemma zones_of_groupby:
  "fst ` set (groupby BT_ID surveypoint_df) \<subseteq> {z. Some z \<in> BT_ID ` set surveypoint_df}"
  by (auto simp: set_keys_groupby image_iff) (metis)

lemma fst_FoodResourceCount_row: "fst (FoodResourceCount_row bt_id sub_df) = bt_id"
  by (simp add: FoodResourceCount_row_def Let_def)

lemma fst_ConnectionStrength_row: "fst (ConnectionStrength_row bt_id sub_df) = bt_id"
  by (simp add: ConnectionStrength_row_def Let_def)

lemma fst_SimilarFunctionalSpecies_row: "fst (SimilarFunctionalSpecies_row bt_id sub_df) = bt_id"
  by (simp add: SimilarFunctionalSpecies_row_def Let_def)

lemma keys_of_mapped_rows:
  assumes "\<And>bt_id sub_df. fst (row bt_id sub_df) = bt_id"
  shows "map fst (map (\<lambda>(bt_id, sub_df). row bt_id sub_df) groups) = map fst groups"
  by (induction groups) (auto simp: assms)

lemma coverage_of_groupby_table:
  assumes "map fst table = map fst (groupby BT_ID surveypoint_df)"
  shows "coverage biotope_ids surveypoint_df (join_biotopes biotope_ids table)"
proof (rule coverage_join_biotopes)
  show "distinct (map fst table)"
    by (simp only: assms distinct_keys_groupby)
  have "fst ` set table = set (map fst table)" by simp
  also have "\<dots> = fst ` set (groupby BT_ID surveypoint_df)" by (simp only: assms set_map)
  finally show "fst ` set table \<subseteq> {z. Some z \<in> BT_ID ` set surveypoint_df}"
    using zones_of_groupby [of surveypoint_df] by simp
qed

lemma length_minmax_normalize: "minmax_normalize seq = Inr results \<Longrightarrow> length results = length seq"
  by (auto simp: minmax_normalize_def Let_def split: list.splits if_splits)

lemma keys_DiversityIndex_result:
  assumes "DiversityIndex_result table = Inr result_df"
  shows "map fst result_df = map fst table"
proof -
  from assms obtain results
    where n: "minmax_normalize (map (\<lambda>(bt_id, prey_n, shannon). shannon) table) = Inr results"
      and r: "result_df = map2 (\<lambda>(bt_id, prey_n, shannon) r. (bt_id, (prey_n, shannon), Fin r))
                 table results"
    by (auto simp: DiversityIndex_result_def split: sum.splits)
  from n have "length results = length table"
    by (auto dest: length_minmax_normalize)
  then have "map fst (map2 (\<lambda>(bt_id, prey_n, shannon) r. (bt_id, (prey_n, shannon), Fin r))
                 table results) = map fst table"
    by (induction table results rule: list_induct2') auto
  with r show ?thesis by simp
qed

section \<open>The rows of \<^verbatim>\<open>FoodResourceCount\<close> and \<^verbatim>\<open>ConnectionStrength\<close>\<close>

lemma map_of_mapped_rows:
  "map_of (map (\<lambda>(k, g). (k, f k g)) xs) k = map_option (f k) (map_of xs k)"
  by (induction xs) auto

lemma zone_group:
  assumes "sub_df = filter (\<lambda>x. BT_ID x = Some z) surveypoint_df" and "sub_df \<noteq> []"
  shows "map_of (groupby BT_ID surveypoint_df) z = Some sub_df"
proof -
  from assms obtain x where "x \<in> set surveypoint_df" "BT_ID x = Some z"
    by (auto simp: filter_empty_conv)
  then show ?thesis
    by (auto simp: map_of_groupby assms(1))
qed

lemma FoodResourceCount_row_sums:
  "FoodResourceCount_row bt_id sub_df =
     (bt_id,
      (sum_list (map gaechesu (filter (\<lambda>x. Owls_foods x = Some ''Prey_S'') sub_df)),
       sum_list (map gaechesu (filter (\<lambda>x. Owls_foods x \<noteq> None) sub_df))),
      np_truediv (sum_list (map gaechesu (filter (\<lambda>x. Owls_foods x = Some ''Prey_S'') sub_df)))
        (sum_list (map gaechesu (filter (\<lambda>x. Owls_foods x \<noteq> None) sub_df))))"
  by (simp add: FoodResourceCount_row_def Let_def series_get_groupby_sum total_groupby_sum)

lemma sum_list_filter_mono:
  fixes f :: "'a \<Rightarrow> real"
  assumes "\<forall>x\<in>set xs. 0 \<le> f x" and "\<And>x. P x \<Longrightarrow> Q x"
  shows "sum_list (map f (filter P xs)) \<le> sum_list (map f (filter Q xs))"
  using assms(1)
proof (induction xs)
  case Nil
  then show ?case by simp
next
  case (Cons x xs)
  then show ?case using assms(2) [of x] by auto
qed

lemma sum_list_filter_nonneg:
  fixes f :: "'a \<Rightarrow> real"
  shows "\<forall>x\<in>set xs. 0 \<le> f x \<Longrightarrow> 0 \<le> sum_list (map f (filter P xs))"
  by (induction xs) auto

lemma sum_list_ge_one:
  fixes f :: "'a \<Rightarrow> real"
  shows "xs \<noteq> [] \<Longrightarrow> \<forall>x\<in>set xs. 1 \<le> f x \<Longrightarrow> 1 \<le> sum_list (map f xs)"
proof (induction xs)
  case Nil
  then show ?case by simp
next
  case (Cons x xs)
  show ?case
  proof (cases xs)
    case Nil
    with Cons.prems show ?thesis by simp
  next
    case (Cons y ys)
    with Cons.IH Cons.prems have "1 \<le> sum_list (map f xs)" by simp
    moreover from Cons.prems have "1 \<le> f x" by simp
    ultimately show ?thesis by simp
  qed
qed

text \<open>
  Claim C2, as amended. For a biotope \<open>z\<close> with at least one observation,
  \<^verbatim>\<open>FoodResourceCount\<close> emits the row with \<open>prey_sum\<close>, \<open>total_sum\<close> and their numpy quotient,
  where \<open>prey_sum\<close> sums the counts of the biotope's observations of category \<open>Prey_S\<close> and
  \<open>total_sum\<close> sums the counts of its observations whose category is not null (an
  observation of a species without a row in the information table is left out of the
  total). When no count of the biotope is negative and \<open>total_sum\<close> is positive, the result is
  the number \<open>prey_sum / total_sum\<close> and lies between 0 and 1. When every observation of the
  biotope has a category and a count of at least 1, \<open>total_sum\<close> is the sum over all its
  observations and at least 1.
\<close>

theorem PreyRatio_of_zone:
  assumes "sub_df = filter (\<lambda>x. BT_ID x = Some z) surveypoint_df"
    and "sub_df \<noteq> []"
    and "prey_sum = sum_list (map gaechesu (filter (\<lambda>x. Owls_foods x = Some ''Prey_S'') sub_df))"
    and "total_sum = sum_list (map gaechesu (filter (\<lambda>x. Owls_foods x \<noteq> None) sub_df))"
  shows "map_of (FoodResourceCount_table surveypoint_df) z
           = Some ((prey_sum, total_sum), np_truediv prey_sum total_sum)
       \<and> ((\<forall>x\<in>set sub_df. 0 \<le> gaechesu x) \<and> 0 < total_sum
            \<longrightarrow> np_truediv prey_sum total_sum = Fin (prey_sum / total_sum)
                \<and> 0 \<le> prey_sum / total_sum \<and> prey_sum / total_sum \<le> 1)
       \<and> ((\<forall>x\<in>set sub_df. Owls_foods x \<noteq> None \<and> 1 \<le> gaechesu x)
            \<longrightarrow> total_sum = sum_list (map gaechesu sub_df) \<and> 1 \<le> total_sum)"
proof (intro conjI impI)
  have "FoodResourceCount_table surveypoint_df
          = map (\<lambda>(k, g). (k, snd (FoodResourceCount_row k g))) (groupby BT_ID surveypoint_df)"
    by (simp add: FoodResourceCount_table_def FoodResourceCount_row_sums)
  then have "map_of (FoodResourceCount_table surveypoint_df) z
          = map_option (\<lambda>g. snd (FoodResourceCount_row z g)) (map_of (groupby BT_ID surveypoint_df) z)"
    by (simp only: map_of_mapped_rows)
  then show "map_of (FoodResourceCount_table surveypoint_df) z
           = Some ((prey_sum, total_sum), np_truediv prey_sum total_sum)"
    by (simp add: zone_group [OF assms(1,2)] FoodResourceCount_row_sums assms(3,4))
next
  assume a: "(\<forall>x\<in>set sub_df. 0 \<le> gaechesu x) \<and> 0 < total_sum"
  then show "np_truediv prey_sum total_sum = Fin (prey_sum / total_sum)"
    by (simp add: np_truediv_def)
  from a have "0 \<le> prey_sum"
    unfolding assms(3) by (intro sum_list_filter_nonneg) simp
  with a show "0 \<le> prey_sum / total_sum" by simp
  from a have "prey_sum \<le> total_sum"
    unfolding assms(3,4) by (intro sum_list_filter_mono) simp_all
  with a show "prey_sum / total_sum \<le> 1" by simp
next
  assume a: "\<forall>x\<in>set sub_df. Owls_foods x \<noteq> None \<and> 1 \<le> gaechesu x"
  then have "filter (\<lambda>x. Owls_foods x \<noteq> None) sub_df = sub_df" by (simp add: filter_id_conv)
  then show t: "total_sum = sum_list (map gaechesu sub_df)" by (simp add: assms(4))
  from a assms(2) show "1 \<le> total_sum"
    unfolding t by (intro sum_list_ge_one) simp_all
qed

text \<open>
  Claim C2 as stated fails: a biotope whose single observation (count 2) is of a species
  without a row in the information table has \<open>total_sum = 0\<close>, not 2 and not at least 1;
  the division yields NaN, which only the final \<open>fillna\<close> turns into 0.
\<close>

theorem PreyRatio_of_zone_counterexample:
  "map gaechesu (enrich parse_unsigned True
       [survey_point (Some (1::nat)) ''marten'' (Str ''2'')] sample_info) = [2]
   \<and> FoodResourceCount_table (enrich parse_unsigned True
       [survey_point (Some (1::nat)) ''marten'' (Str ''2'')] sample_info) = [(1, (0, 0), NaN)]
   \<and> FoodResourceCount_run parse_unsigned True
       [survey_point (Some (1::nat)) ''marten'' (Str ''2'')] sample_info [1]
       = [(1, Some (0, 0), Fin 0)]"
  by (simp add: calc_defs enrich_defs sample_defs pandas_defs)

lemma ConnectionStrength_row_counts:
  "ConnectionStrength_row bt_id sub_df =
     (bt_id, length (filter (\<lambda>x. Owls_foods x = Some ''Prey_S'') sub_df),
      Fin (if length (filter (\<lambda>x. Owls_foods x = Some ''Prey_S'') sub_df) > 0 then 1 else 0))"
  by (simp add: ConnectionStrength_row_def Let_def series_get_value_counts)

text \<open>
  Claim C8, as amended. For a biotope \<open>z\<close> with at least one observation,
  \<^verbatim>\<open>ConnectionStrength\<close> emits as its raw count column the number of the biotope's
  observations (rows) of category \<open>Prey_S\<close>, and the result 1 if that number is positive,
  else 0.
\<close>

theorem ConnectionPresence_of_zone:
  assumes "sub_df = filter (\<lambda>x. BT_ID x = Some z) surveypoint_df"
    and "sub_df \<noteq> []"
    and "prey_rows = length (filter (\<lambda>x. Owls_foods x = Some ''Prey_S'') sub_df)"
  shows "map_of (ConnectionStrength_table surveypoint_df) z
           = Some (prey_rows, Fin (if prey_rows > 0 then 1 else 0))"
proof -
  have "ConnectionStrength_table surveypoint_df
          = map (\<lambda>(k, g). (k, snd (ConnectionStrength_row k g))) (groupby BT_ID surveypoint_df)"
    by (simp add: ConnectionStrength_table_def ConnectionStrength_row_counts)
  then have "map_of (ConnectionStrength_table surveypoint_df) z
          = map_option (\<lambda>g. snd (ConnectionStrength_row z g)) (map_of (groupby BT_ID surveypoint_df) z)"
    by (simp only: map_of_mapped_rows)
  then show ?thesis
    by (simp add: zone_group [OF assms(1,2)] ConnectionStrength_row_counts assms(3))
qed

text \<open>
  Claim C8 as stated, with the raw count column the sum of the prey counts, fails: one
  prey observation with the count 5 gives the column the value 1.
\<close>

theorem ConnectionPresence_of_zone_counterexample:
  "sum_list (map gaechesu (filter (\<lambda>x. Owls_foods x = Some ''Prey_S'')
       (enrich parse_unsigned True [survey_point (Some (1::nat)) ''vole'' (Str ''5'')] sample_info)))
     = 5
   \<and> ConnectionStrength_table
       (enrich parse_unsigned True [survey_point (Some (1::nat)) ''vole'' (Str ''5'')] sample_info)
     = [(1, 1, Fin 1)]"
  by (simp add: calc_defs enrich_defs sample_defs pandas_defs)

lemma enrich_scenario:
  "enrich parse_unsigned True
     [survey_point (Some (1::nat)) ''vole'' (Str ''3''), survey_point (Some 1) ''heron'' (Str ''many'')]
     sample_info
   = [observation (Some 1) ''vole'' 3 (Some ''Prey_S'') (Some ''D1'') (Some ''Alt_S''),
      observation (Some 1) ''heron'' 1 (Some ''Normal_S'') (Some ''D3'') (Some ''Threatened_S'')]"
  by (simp add: enrich_defs sample_defs)

theorem PreyRatio_of_zone_witness:
  "map_of (FoodResourceCount_table (enrich parse_unsigned True
       [survey_point (Some (1::nat)) ''vole'' (Str ''3''),
        survey_point (Some 1) ''heron'' (Str ''many'')] sample_info)) 1
     = Some ((3, 4), Fin (3 / 4))
   \<and> FoodResourceCount_run parse_unsigned True
       [survey_point (Some (1::nat)) ''vole'' (Str ''3''),
        survey_point (Some 1) ''heron'' (Str ''many'')] sample_info [1, 2]
     = [(1, Some (3, 4), Fin (3 / 4)), (2, None, Fin 0)]"
proof -
  let ?df = "[observation (Some (1::nat)) ''vole'' 3 (Some ''Prey_S'') (Some ''D1'') (Some ''Alt_S''),
      observation (Some 1) ''heron'' 1 (Some ''Normal_S'') (Some ''D3'') (Some ''Threatened_S'')]"
  have sub: "?df = filter (\<lambda>x. BT_ID x = Some 1) ?df" and ne: "?df \<noteq> []"
    and p: "3 = sum_list (map gaechesu (filter (\<lambda>x. Owls_foods x = Some ''Prey_S'') ?df))"
    and t: "4 = sum_list (map gaechesu (filter (\<lambda>x. Owls_foods x \<noteq> None) ?df))"
    and nonneg: "\<forall>x\<in>set ?df. 0 \<le> gaechesu x"
    by (simp_all add: observation_def)
  from PreyRatio_of_zone [OF sub ne p t] nonneg
  have "map_of (FoodResourceCount_table ?df) 1 = Some ((3, 4), Fin (3 / 4))"
    by simp
  moreover have "FoodResourceCount_run parse_unsigned True
       [survey_point (Some (1::nat)) ''vole'' (Str ''3''),
        survey_point (Some 1) ''heron'' (Str ''many'')] sample_info [1, 2]
     = [(1, Some (3, 4), Fin (3 / 4)), (2, None, Fin 0)]"
    unfolding FoodResourceCount_run_def enrich_scenario
    by (simp add: calc_defs observation_def pandas_defs)
  ultimately show ?thesis
    by (simp only: enrich_scenario)
qed

theorem ConnectionPresence_of_zone_witness:
  "map_of (ConnectionStrength_table (enrich parse_unsigned True
       [survey_point (Some (1::nat)) ''vole'' (Str ''3''),
        survey_point (Some 1) ''heron'' (Str ''many'')] sample_info)) 1
     = Some (1, Fin 1)"
proof -
  let ?df = "[observation (Some (1::nat)) ''vole'' 3 (Some ''Prey_S'') (Some ''D1'') (Some ''Alt_S''),
      observation (Some 1) ''heron'' 1 (Some ''Normal_S'') (Some ''D3'') (Some ''Threatened_S'')]"
  have sub: "?df = filter (\<lambda>x. BT_ID x = Some 1) ?df" and ne: "?df \<noteq> []"
    and p: "1 = length (filter (\<lambda>x. Owls_foods x = Some ''Prey_S'') ?df)"
    by (simp_all add: observation_def)
  from ConnectionPresence_of_zone [OF sub ne p]
  have "map_of (ConnectionStrength_table ?df) 1 = Some (1, Fin 1)"
    by simp
  then show ?thesis
    by (simp only: enrich_scenario)
qed

section \<open>The Shannon index\<close>

lemma sum_entropy_Inr:
  "sum_entropy ps = Inr h \<Longrightarrow> (\<forall>p\<in>set ps. 0 < p) \<and> h = (\<Sum>p\<leftarrow>ps. - (p * log 2 p))"
proof (induction ps arbitrary: h)
  case Nil
  then show ?case by simp
next
  case (Cons p ps)
  then show ?case
    by (auto split: if_splits sum.splits)
qed

lemma sum_entropy_positive:
  "\<forall>p\<in>set ps. 0 < p \<Longrightarrow> sum_entropy ps = Inr (\<Sum>p\<leftarrow>ps. - (p * log 2 p))"
  by (induction ps) auto

lemma entropy_term_nonneg:
  fixes p :: real
  assumes "0 < p" and "p \<le> 1"
  shows "0 \<le> - (p * log 2 p)"
proof -
  from assms have "log 2 p \<le> 0" by simp
  with assms(1) have "p * log 2 p \<le> 0"
    by (intro mult_nonneg_nonpos) simp_all
  then show ?thesis by simp
qed

lemma proportions_sum_to_one:
  fixes counts :: "real list"
  assumes "sum_list counts \<noteq> 0"
  shows "sum_list (map (\<lambda>count. count / sum_list counts) counts) = 1"
proof -
  have "sum_list (map (\<lambda>count. count / sum_list counts) counts)
          = sum_list (map (\<lambda>count. count * inverse (sum_list counts)) counts)"
    by (simp add: divide_inverse)
  also have "\<dots> = sum_list counts * inverse (sum_list counts)"
    by (simp only: sum_list_mult_const) simp
  finally show ?thesis using assms by simp
qed

lemma get_shannon_index_nonneg:
  assumes "get_shannon_index counts = Inr h"
  shows "0 \<le> h"
proof (cases "counts = []")
  case True
  with assms show ?thesis by (simp add: get_shannon_index_def)
next
  case False
  define ps where "ps = map (\<lambda>count. count / sum_list counts) counts"
  from assms False have total: "sum_list counts \<noteq> 0" and e: "sum_entropy ps = Inr h"
    by (auto simp: get_shannon_index_def Let_def ps_def split: if_splits)
  from sum_entropy_Inr [OF e]
  have pos: "\<forall>p\<in>set ps. 0 < p" and h: "h = (\<Sum>p\<leftarrow>ps. - (p * log 2 p))" by simp_all
  have one: "sum_list ps = 1"
    unfolding ps_def using total by (rule proportions_sum_to_one)
  have le: "p \<le> 1" if "p \<in> set ps" for p
  proof -
    have "p \<le> sum_list ps"
      using that pos by (intro member_le_sum_list) (auto intro: less_imp_le)
    with one show ?thesis by simp
  qed
  have "0 \<le> (\<Sum>p\<leftarrow>ps. - (p * log 2 p))"
    by (rule sum_list_nonneg) (use pos le in \<open>auto intro!: entropy_term_nonneg\<close>)
  with h show ?thesis by simp
qed

lemma get_shannon_index_single:
  assumes "get_shannon_index counts = Inr h" and "length counts = 1"
  shows "h = 0"
proof -
  from assms(2) obtain c where c: "counts = [c]"
    by (cases counts) auto
  with assms(1) have "c \<noteq> 0"
    by (auto simp: get_shannon_index_def split: if_splits)
  with assms(1) c show ?thesis
    by (simp add: get_shannon_index_def)
qed

lemma get_shannon_index_positive:
  assumes "\<forall>c\<in>set counts. 0 < c"
  shows "\<exists>h. get_shannon_index counts = Inr h"
proof (cases "counts = []")
  case True
  then show ?thesis by (simp add: get_shannon_index_def)
next
  case False
  then obtain c cs where cs: "counts = c # cs" by (cases counts) auto
  have "0 \<le> sum_list cs"
    by (rule sum_list_nonneg) (use assms cs in \<open>auto intro: less_imp_le\<close>)
  moreover have "0 < c" using assms cs by simp
  ultimately have total: "0 < sum_list counts" using cs by simp
  then have "\<forall>p\<in>set (map (\<lambda>count. count / sum_list counts) counts). 0 < p"
    using assms by simp
  from sum_entropy_positive [OF this] total show ?thesis
    by (simp add: get_shannon_index_def)
qed

lemma group_of_groupby:
  assumes "(k, g) \<in> set (groupby key df)"
  shows "g \<noteq> [] \<and> set g \<subseteq> set df"
proof -
  from assms have "k \<in> fst ` set (groupby key df)" by force
  then obtain x where x: "x \<in> set df" "key x = Some k"
    by (auto simp: set_keys_groupby)
  from assms have g: "g = filter (\<lambda>x. key x = Some k) df"
    by (auto simp: groupby_def)
  with x have "x \<in> set g" by simp
  then have "g \<noteq> []" by auto
  moreover from g have "set g \<subseteq> set df" by auto
  ultimately show ?thesis by simp
qed

lemma positive_species_counts:
  assumes "\<forall>x\<in>set sub_df. 0 < gaechesu x"
  shows "\<forall>c\<in>set (map snd (prey_species_counts sub_df)). 0 < c"
proof
  fix c assume "c \<in> set (map snd (prey_species_counts sub_df))"
  then obtain k g
    where kg: "(k, g) \<in> set (groupby gukmyeong (filter (\<lambda>x. Owls_foods x = Some ''Prey_S'') sub_df))"
      and c: "c = sum_list (map gaechesu g)"
    by (auto simp: prey_species_counts_def groupby_sum_def)
  from group_of_groupby [OF kg] obtain y ys where g: "g = y # ys" and sub: "set g \<subseteq> set sub_df"
    by (cases g) auto
  have "0 \<le> sum_list (map gaechesu ys)"
    by (rule sum_list_nonneg) (use g sub assms in \<open>auto intro: less_imp_le\<close>)
  moreover have "0 < gaechesu y" using g sub assms by auto
  ultimately show "0 < c" using c g by simp
qed

text \<open>
  Claim C9. Let \<open>counts\<close> be the per-species counts of the prey observations of a biotope.
  Every entropy that \<^verbatim>\<open>_get_shannon_index\<close> computes from them is non-negative, and it is 0
  when exactly one species is present. The entropy in the row of the biotope is that
  value, and it is computed (nothing is raised) whenever every observation of the biotope
  has a positive count.
\<close>

theorem shannon_index_nonnegative:
  assumes "counts = map snd (prey_species_counts sub_df)"
  shows "(\<forall>h. get_shannon_index counts = Inr h \<longrightarrow> 0 \<le> h \<and> (length counts = 1 \<longrightarrow> h = 0))
       \<and> (\<forall>prey_n h. DiversityIndex_row bt_id sub_df = Inr (bt_id, prey_n, h)
             \<longrightarrow> get_shannon_index counts = Inr h)
       \<and> ((\<forall>x\<in>set sub_df. 0 < gaechesu x)
             \<longrightarrow> (\<exists>h. DiversityIndex_row bt_id sub_df = Inr (bt_id, sum_list counts, h)))"
proof (intro conjI allI impI)
  fix h assume "get_shannon_index counts = Inr h"
  then show "0 \<le> h" by (rule get_shannon_index_nonneg)
next
  fix h assume "get_shannon_index counts = Inr h" and "length counts = 1"
  then show "h = 0" by (rule get_shannon_index_single)
next
  fix prey_n h assume "DiversityIndex_row bt_id sub_df = Inr (bt_id, prey_n, h)"
  then show "get_shannon_index counts = Inr h"
    by (auto simp: DiversityIndex_row_def Let_def assms split: sum.splits)
next
  assume "\<forall>x\<in>set sub_df. 0 < gaechesu x"
  then have "\<forall>c\<in>set counts. 0 < c"
    unfolding assms by (rule positive_species_counts)
  then obtain h where "get_shannon_index counts = Inr h"
    using get_shannon_index_positive by blast
  then show "\<exists>h. DiversityIndex_row bt_id sub_df = Inr (bt_id, sum_list counts, h)"
    by (simp add: DiversityIndex_row_def Let_def assms)
qed

theorem shannon_index_nonnegative_witness:
  "DiversityIndex_row (1::nat)
     [observation (Some 1) ''vole'' 1 (Some ''Prey_S'') (Some ''D1'') (Some ''Alt_S''),
      observation (Some 1) ''shrew'' 1 (Some ''Prey_S'') (Some ''D2'') (Some ''Normal_S''),
      observation (Some 1) ''heron'' 4 (Some ''Normal_S'') (Some ''D3'') None] = Inr (1, 2, 1)
   \<and> (0::real) \<le> 1
   \<and> DiversityIndex_row (2::nat)
     [observation (Some 2) ''vole'' 2 (Some ''Prey_S'') (Some ''D1'') (Some ''Alt_S''),
      observation (Some 2) ''vole'' 3 (Some ''Prey_S'') (Some ''D1'') (Some ''Alt_S'')]
       = Inr (2, 5, 0)"
proof -
  let ?a = "[observation (Some (1::nat)) ''vole'' 1 (Some ''Prey_S'') (Some ''D1'') (Some ''Alt_S''),
      observation (Some 1) ''shrew'' 1 (Some ''Prey_S'') (Some ''D2'') (Some ''Normal_S''),
      observation (Some 1) ''heron'' 4 (Some ''Normal_S'') (Some ''D3'') None]"
  let ?b = "[observation (Some (2::nat)) ''vole'' 2 (Some ''Prey_S'') (Some ''D1'') (Some ''Alt_S''),
      observation (Some 2) ''vole'' 3 (Some ''Prey_S'') (Some ''D1'') (Some ''Alt_S'')]"
  have ca: "map snd (prey_species_counts ?a) = [1, 1]"
    and cb: "map snd (prey_species_counts ?b) = [5]"
    by (simp_all add: prey_species_counts_def observation_def pandas_defs)
  have ha: "get_shannon_index [1, 1] = Inr 1"
    by (simp add: get_shannon_index_def log_divide)
  have pa: "\<forall>x\<in>set ?a. 0 < gaechesu x" and pb: "\<forall>x\<in>set ?b. 0 < gaechesu x"
    by (simp_all add: observation_def)
  from shannon_index_nonnegative [OF ca [symmetric], of 1] pa ha
  have a: "DiversityIndex_row 1 ?a = Inr (1, 2, 1)" by auto
  from shannon_index_nonnegative [OF cb [symmetric], of 2] pb
  have b: "DiversityIndex_row 2 ?b = Inr (2, 5, 0)" by auto
  from a b show ?thesis by simp
qed


section \<open>When a table is handed over, and what it covers\<close>

lemma collect_total:
  "(\<And>x. x \<in> set xs \<Longrightarrow> \<exists>y. f x = Inr y) \<Longrightarrow> \<exists>ys. collect (map f xs) = Inr ys"
proof (induction xs)
  case Nil
  then show ?case by simp
next
  case (Cons x xs)
  then obtain y ys where "f x = Inr y" "collect (map f xs) = Inr ys"
    by (meson list.set_intros)
  then show ?case by simp
qed

lemma zone_of_group:
  assumes "(z, g) \<in> set (groupby BT_ID df)"
  shows "g = filter (\<lambda>x. BT_ID x = Some z) df \<and> (\<exists>x\<in>set df. BT_ID x = Some z)"
proof -
  from assms have "z \<in> fst ` set (groupby BT_ID df)" by force
  then have "\<exists>x\<in>set df. BT_ID x = Some z" by (simp add: set_keys_groupby)
  moreover from assms have "g = filter (\<lambda>x. BT_ID x = Some z) df" by (auto simp: groupby_def)
  ultimately show ?thesis by simp
qed

lemma CombinableProducersAndConsumers_row_defined:
  assumes "length scores = 3"
    and "y \<in> set sub_df" and "D_Level y \<in> {Some ''D1'', Some ''D2'', Some ''D3''}"
  shows "\<exists>row. CombinableProducersAndConsumers_row scores bt_id sub_df = Inr row"
proof -
  define n where "n = (\<lambda>d. length (filter (\<lambda>x. D_Level x = Some d) sub_df))"
  define u where "u = length (filter (\<lambda>d_count. d_count \<noteq> 0) [n ''D1'', n ''D2'', n ''D3''])"
  from assms(2,3) have "n ''D1'' \<noteq> 0 \<or> n ''D2'' \<noteq> 0 \<or> n ''D3'' \<noteq> 0"
    by (auto simp: n_def filter_empty_conv)
  then have "1 \<le> u" "u \<le> 3"
    by (auto simp: u_def)
  then have "\<exists>score. py_index scores (3 - int u) = Inr score"
    using assms(1) by (auto simp: py_index_def)
  then show ?thesis
    by (auto simp: CombinableProducersAndConsumers_row_def Let_def series_get_value_counts
        n_def u_def)
qed

lemma CombinableProducersAndConsumers_table_defined:
  assumes "length scores = 3"
    and "\<forall>x\<in>set df. \<forall>z. BT_ID x = Some z \<longrightarrow>
           (\<exists>y\<in>set df. BT_ID y = Some z \<and> D_Level y \<in> {Some ''D1'', Some ''D2'', Some ''D3''})"
  shows "\<exists>table. CombinableProducersAndConsumers_table scores df = Inr table"
  unfolding CombinableProducersAndConsumers_table_def
proof (rule collect_total)
  fix zg assume zg: "zg \<in> set (groupby BT_ID df)"
  obtain z g where [simp]: "zg = (z, g)" by (cases zg)
  from zone_of_group [of z g df] zg
  have g: "g = filter (\<lambda>x. BT_ID x = Some z) df" and "\<exists>x\<in>set df. BT_ID x = Some z" by simp_all
  with assms(2) obtain y where "y \<in> set df" "BT_ID y = Some z"
    "D_Level y \<in> {Some ''D1'', Some ''D2'', Some ''D3''}" by blast
  with g have "y \<in> set g" by simp
  from CombinableProducersAndConsumers_row_defined [OF assms(1) this] \<open>D_Level y \<in> _\<close>
  show "\<exists>row. (case zg of (bt_id, sub_df) \<Rightarrow> CombinableProducersAndConsumers_row scores bt_id sub_df)
           = Inr row"
    by simp
qed

lemma DiversityIndex_table_defined:
  assumes "\<forall>x\<in>set df. 0 < gaechesu x"
  shows "\<exists>table. DiversityIndex_table df = Inr table"
  unfolding DiversityIndex_table_def
proof (rule collect_total)
  fix zg assume zg: "zg \<in> set (groupby BT_ID df)"
  obtain z g where [simp]: "zg = (z, g)" by (cases zg)
  from zone_of_group [of z g df] zg have "set g \<subseteq> set df" by auto
  with assms have "\<forall>x\<in>set g. 0 < gaechesu x" by blast
  then have "\<forall>c\<in>set (map snd (prey_species_counts g)). 0 < c"
    by (rule positive_species_counts)
  then obtain h where "get_shannon_index (map snd (prey_species_counts g)) = Inr h"
    using get_shannon_index_positive by blast
  then show "\<exists>row. (case zg of (bt_id, sub_df) \<Rightarrow> DiversityIndex_row bt_id sub_df) = Inr row"
    by (simp add: DiversityIndex_row_def Let_def)
qed

lemma minmax_normalize_defined:
  assumes "seq \<noteq> []" and "Max (set seq) \<noteq> Min (set seq)"
  shows "\<exists>results. minmax_normalize seq = Inr results"
proof (cases seq)
  case Nil
  with assms show ?thesis by simp
next
  case (Cons x xs)
  with assms have "fold max xs x \<noteq> fold min xs x"
    by (simp only: fold_max_Max fold_min_Min) simp
  with Cons show ?thesis
    by (simp add: minmax_normalize_def Let_def)
qed

lemma minmax_normalize_short:
  "length seq \<le> 1 \<Longrightarrow> minmax_normalize seq = Inl (if seq = [] then ValueError else ZeroDivisionError)"
  by (cases seq) (auto simp: minmax_normalize_def)

lemma enrich_sample_joined:
  "enrich parse_unsigned True sample_joined sample_info =
     [observation (Some 1) ''vole'' 1 (Some ''Prey_S'') (Some ''D1'') (Some ''Alt_S''),
      observation (Some 1) ''shrew'' 1 (Some ''Prey_S'') (Some ''D2'') (Some ''Normal_S''),
      observation (Some 2) ''vole'' 2 (Some ''Prey_S'') (Some ''D1'') (Some ''Alt_S''),
      observation None ''heron'' 4 (Some ''Normal_S'') (Some ''D3'') (Some ''Threatened_S'')]"
  by (simp add: sample_joined_def enrich_defs sample_defs)

lemma runs_on_sample_joined:
  "FoodResourceCount_run parse_unsigned True sample_joined sample_info [1, 2, 3]
     = [(1, Some (2, 2), Fin 1), (2, Some (2, 2), Fin 1), (3, None, Fin 0)]"
  "DiversityIndex_run parse_unsigned True sample_joined sample_info [1, 2, 3]
     = Inr [(1, Some (2, 1), Fin 1), (2, Some (2, 0), Fin 0), (3, None, Fin 0)]"
  "CombinableProducersAndConsumers_run [1, 0.6, 0.3] parse_unsigned True sample_joined sample_info
       [1, 2, 3]
     = Inr [(1, Some [1, 1, 0], Fin 0.6), (2, Some [1, 0, 0], Fin 0.3), (3, None, Fin 0)]"
  "ConnectionStrength_run parse_unsigned True sample_joined sample_info [1, 2, 3]
     = [(1, Some 2, Fin 1), (2, Some 1, Fin 1), (3, None, Fin 0)]"
  "SimilarFunctionalSpecies_run parse_unsigned True sample_joined sample_info [1, 2, 3]
     = [(1, Some (0, 0, 1, 1), Fin 1), (2, Some (0, 0, 1, 0), Fin 1), (3, None, Fin 0)]"
  unfolding calc_defs(1,4,11,14,17) enrich_sample_joined
  by (simp_all add: calc_defs observation_def pandas_defs log_divide)

text \<open>
  Claim C1, as amended. The coverage property (exactly the rows of the biotope table in the
  \<open>BT_ID\<close> column, no null result, result 0 and null counts for every biotope without an
  observation) holds of the table of \<^verbatim>\<open>FoodResourceCount\<close>, \<^verbatim>\<open>ConnectionStrength\<close> and
  \<^verbatim>\<open>SimilarFunctionalSpecies\<close> on every input, and of every table that
  \<^verbatim>\<open>CombinableProducersAndConsumers\<close> and \<^verbatim>\<open>DiversityIndex\<close> hand over.
  \<^verbatim>\<open>CombinableProducersAndConsumers\<close> hands a table over whenever there are three scores and
  every biotope with an observation has an observation with one of the tiers D1, D2, D3.
  \<^verbatim>\<open>DiversityIndex\<close> computes the entropy of every biotope whenever all counts are positive,
  and hands a table over whenever it has computed at least one entropy and the largest and
  the smallest entropy differ.
\<close>

theorem coverage_of_every_index:
  assumes "surveypoint_df = enrich parse skip_noname joined info_df"
  shows "coverage biotope_ids surveypoint_df
           (FoodResourceCount_run parse skip_noname joined info_df biotope_ids)
       \<and> coverage biotope_ids surveypoint_df
           (ConnectionStrength_run parse skip_noname joined info_df biotope_ids)
       \<and> coverage biotope_ids surveypoint_df
           (SimilarFunctionalSpecies_run parse skip_noname joined info_df biotope_ids)
       \<and> (\<forall>out. CombinableProducersAndConsumers_run scores parse skip_noname joined info_df
                biotope_ids = Inr out
              \<longrightarrow> coverage biotope_ids surveypoint_df out)
       \<and> (length scores = 3
            \<and> (\<forall>x\<in>set surveypoint_df. \<forall>z. BT_ID x = Some z \<longrightarrow>
                 (\<exists>y\<in>set surveypoint_df. BT_ID y = Some z
                    \<and> D_Level y \<in> {Some ''D1'', Some ''D2'', Some ''D3''}))
              \<longrightarrow> (\<exists>out. CombinableProducersAndConsumers_run scores parse skip_noname joined
                     info_df biotope_ids = Inr out))
       \<and> (\<forall>out. DiversityIndex_run parse skip_noname joined info_df biotope_ids = Inr out
              \<longrightarrow> coverage biotope_ids surveypoint_df out)
       \<and> ((\<forall>x\<in>set surveypoint_df. 0 < gaechesu x)
              \<longrightarrow> (\<exists>table. DiversityIndex_table surveypoint_df = Inr table))
       \<and> (\<forall>table. DiversityIndex_table surveypoint_df = Inr table \<and> table \<noteq> []
              \<and> Max (set (map (\<lambda>(bt_id, prey_n, shannon). shannon) table))
                   \<noteq> Min (set (map (\<lambda>(bt_id, prey_n, shannon). shannon) table))
              \<longrightarrow> (\<exists>out. DiversityIndex_run parse skip_noname joined info_df biotope_ids
                     = Inr out))"
proof (intro conjI allI impI)
  show "coverage biotope_ids surveypoint_df
           (FoodResourceCount_run parse skip_noname joined info_df biotope_ids)"
    unfolding FoodResourceCount_run_def FoodResourceCount_table_def assms
    by (intro coverage_of_groupby_table keys_of_mapped_rows fst_FoodResourceCount_row)
  show "coverage biotope_ids surveypoint_df
           (ConnectionStrength_run parse skip_noname joined info_df biotope_ids)"
    unfolding ConnectionStrength_run_def ConnectionStrength_table_def assms
    by (intro coverage_of_groupby_table keys_of_mapped_rows fst_ConnectionStrength_row)
  show "coverage biotope_ids surveypoint_df
           (SimilarFunctionalSpecies_run parse skip_noname joined info_df biotope_ids)"
    unfolding SimilarFunctionalSpecies_run_def SimilarFunctionalSpecies_table_def assms
    by (intro coverage_of_groupby_table keys_of_mapped_rows fst_SimilarFunctionalSpecies_row)
next
  fix out
  assume run: "DiversityIndex_run parse skip_noname joined info_df biotope_ids = Inr out"
  then obtain table result_df
    where t: "DiversityIndex_table surveypoint_df = Inr table"
      and r: "DiversityIndex_result table = Inr result_df"
      and out: "out = join_biotopes biotope_ids result_df"
    by (auto simp: DiversityIndex_run_def assms split: sum.splits)
  have "map fst table = map fst (groupby BT_ID surveypoint_df)"
    using t unfolding DiversityIndex_table_def
    by (rule keys_of_collected_rows) (auto simp: DiversityIndex_row_def Let_def split: sum.splits)
  with keys_DiversityIndex_result [OF r]
  have "map fst result_df = map fst (groupby BT_ID surveypoint_df)" by simp
  then show "coverage biotope_ids surveypoint_df out"
    unfolding out by (rule coverage_of_groupby_table)
next
  fix out
  assume run: "CombinableProducersAndConsumers_run scores parse skip_noname joined info_df
                biotope_ids = Inr out"
  then obtain table
    where t: "CombinableProducersAndConsumers_table scores surveypoint_df = Inr table"
      and out: "out = join_biotopes biotope_ids table"
    by (auto simp: CombinableProducersAndConsumers_run_def assms split: sum.splits)
  have "map fst table = map fst (groupby BT_ID surveypoint_df)"
    using t unfolding CombinableProducersAndConsumers_table_def
    by (rule keys_of_collected_rows)
      (auto simp: CombinableProducersAndConsumers_row_def Let_def split: sum.splits)
  then show "coverage biotope_ids surveypoint_df out"
    unfolding out by (rule coverage_of_groupby_table)
next
  assume "length scores = 3
            \<and> (\<forall>x\<in>set surveypoint_df. \<forall>z. BT_ID x = Some z \<longrightarrow>
                 (\<exists>y\<in>set surveypoint_df. BT_ID y = Some z
                    \<and> D_Level y \<in> {Some ''D1'', Some ''D2'', Some ''D3''}))"
  then obtain table where "CombinableProducersAndConsumers_table scores surveypoint_df = Inr table"
    using CombinableProducersAndConsumers_table_defined [of scores surveypoint_df] by blast
  then show "\<exists>out. CombinableProducersAndConsumers_run scores parse skip_noname joined
                     info_df biotope_ids = Inr out"
    by (simp add: CombinableProducersAndConsumers_run_def assms)
next
  assume "\<forall>x\<in>set surveypoint_df. 0 < gaechesu x"
  then show "\<exists>table. DiversityIndex_table surveypoint_df = Inr table"
    by (rule DiversityIndex_table_defined)
next
  fix table
  assume a: "DiversityIndex_table surveypoint_df = Inr table \<and> table \<noteq> []
              \<and> Max (set (map (\<lambda>(bt_id, prey_n, shannon). shannon) table))
                   \<noteq> Min (set (map (\<lambda>(bt_id, prey_n, shannon). shannon) table))"
  then obtain results
    where "minmax_normalize (map (\<lambda>(bt_id, prey_n, shannon). shannon) table) = Inr results"
    using minmax_normalize_defined [of "map (\<lambda>(bt_id, prey_n, shannon). shannon) table"]
    by auto
  with a show "\<exists>out. DiversityIndex_run parse skip_noname joined info_df biotope_ids = Inr out"
    by (simp add: DiversityIndex_run_def DiversityIndex_result_def assms)
qed

theorem coverage_of_every_index_witness:
  "DiversityIndex_run parse_unsigned True sample_joined sample_info [1, 2, 3]
     = Inr [(1, Some (2, 1), Fin 1), (2, Some (2, 0), Fin 0), (3, None, Fin 0)]
   \<and> CombinableProducersAndConsumers_run [1, 0.6, 0.3] parse_unsigned True sample_joined
       sample_info [1, 2, 3]
     = Inr [(1, Some [1, 1, 0], Fin 0.6), (2, Some [1, 0, 0], Fin 0.3), (3, None, Fin 0)]
   \<and> coverage [1, 2, 3] (enrich parse_unsigned True sample_joined sample_info)
     [(1::nat, Some (2::real, 2::real), Fin 1), (2, Some (2, 2), Fin 1), (3, None, Fin 0)]
   \<and> coverage [1, 2, 3] (enrich parse_unsigned True sample_joined sample_info)
     [(1::nat, Some (2::real, 1::real), Fin 1), (2, Some (2, 0), Fin 0), (3, None, Fin 0)]
   \<and> coverage [1, 2, 3] (enrich parse_unsigned True sample_joined sample_info)
     [(1::nat, Some [1, 1, 0::nat], Fin 0.6), (2, Some [1, 0, 0], Fin 0.3), (3, None, Fin 0)]
   \<and> coverage [1, 2, 3] (enrich parse_unsigned True sample_joined sample_info)
     [(1::nat, Some (2::nat), Fin 1), (2, Some 1, Fin 1), (3, None, Fin 0)]
   \<and> coverage [1, 2, 3] (enrich parse_unsigned True sample_joined sample_info)
     [(1::nat, Some (0::nat, 0::nat, 1::nat, 1::nat), Fin 1), (2, Some (0, 0, 1, 0), Fin 1),
      (3, None, Fin 0)]"
proof -
  let ?df = "enrich parse_unsigned True sample_joined sample_info"
  have positive: "\<forall>x\<in>set ?df. 0 < gaechesu x"
    and tiers: "\<forall>x\<in>set ?df. \<forall>z. BT_ID x = Some z \<longrightarrow>
                 (\<exists>y\<in>set ?df. BT_ID y = Some z
                    \<and> D_Level y \<in> {Some ''D1'', Some ''D2'', Some ''D3''})"
    unfolding enrich_sample_joined by (simp_all add: observation_def)
  have table: "DiversityIndex_table ?df = Inr [(1, 2, 1), (2, 2, 0)]"
    unfolding enrich_sample_joined
    by (simp add: calc_defs observation_def pandas_defs log_divide)
  from coverage_of_every_index [OF refl, of "[1, 2, 3]" parse_unsigned True sample_joined
      sample_info "[1, 0.6, 0.3]", unfolded runs_on_sample_joined] positive tiers table
  have "coverage [1, 2, 3] ?df
     [(1::nat, Some (2::real, 2::real), Fin 1), (2, Some (2, 2), Fin 1), (3, None, Fin 0)]
   \<and> coverage [1, 2, 3] ?df
     [(1::nat, Some (2::real, 1::real), Fin 1), (2, Some (2, 0), Fin 0), (3, None, Fin 0)]
   \<and> coverage [1, 2, 3] ?df
     [(1::nat, Some [1, 1, 0::nat], Fin 0.6), (2, Some [1, 0, 0], Fin 0.3), (3, None, Fin 0)]
   \<and> coverage [1, 2, 3] ?df
     [(1::nat, Some (2::nat), Fin 1), (2, Some 1, Fin 1), (3, None, Fin 0)]
   \<and> coverage [1, 2, 3] ?df
     [(1::nat, Some (0::nat, 0::nat, 1::nat, 1::nat), Fin 1), (2, Some (0, 0, 1, 0), Fin 1),
      (3, None, Fin 0)]"
    by simp
  with runs_on_sample_joined(2,3) show ?thesis
    by (simp only: simp_thms)
qed

text \<open>
  Claim C1 as stated fails for \<^verbatim>\<open>DiversityIndex\<close>: with observations in one biotope only,
  the largest and the smallest entropy are the same number, the normalisation raises
  ZeroDivisionError, and no table is handed over for the two biotopes of the biotope table.
\<close>

theorem coverage_of_every_index_counterexample:
  "DiversityIndex_run parse_unsigned True
       [survey_point (Some (1::nat)) ''vole'' (Str ''2''), survey_point (Some 1) ''shrew'' Null]
       sample_info [1, 2] = Inl ZeroDivisionError
   \<and> (\<nexists>out. DiversityIndex_run parse_unsigned True
       [survey_point (Some (1::nat)) ''vole'' (Str ''2''), survey_point (Some 1) ''shrew'' Null]
       sample_info [1, 2] = Inr out)"
proof -
  have "DiversityIndex_run parse_unsigned True
       [survey_point (Some (1::nat)) ''vole'' (Str ''2''), survey_point (Some 1) ''shrew'' Null]
       sample_info [1, 2] = Inl ZeroDivisionError"
    by (simp add: calc_defs enrich_defs sample_defs pandas_defs log_divide)
  then show ?thesis by simp
qed

end
